theory Spec2Isabelle
  imports Main
begin

section \<open>Text and regular expressions as FontCompress.py uses them\<close>

text \<open>
  A Python \<open>str\<close> is a sequence of Unicode code points; a character is its code point
  (\<open>ord\<close>). ASCII literals of the source are written as HOL strings and converted.
\<close>

type_synonym uchar = nat
type_synonym str = "uchar list"

definition ord :: "char \<Rightarrow> uchar" where
  "ord c = of_char c"

definition u :: "string \<Rightarrow> str" where
  "u s = map ord s"

text \<open>
  The character tests of the patterns. \<open>Lit\<close> is a plain literal; \<open>LitI\<close> is a
  lower-case ASCII letter matched under \<open>re.IGNORECASE\<close> (the letter, its upper case,
  and the code points Python's Unicode matching folds onto i, s and k);
  \<open>AnyC\<close> is \<open>[\s\S]\<close> or the dot under \<open>re.DOTALL\<close>; \<open>Dot\<close> is the dot without
  \<open>re.DOTALL\<close> (everything but the line feed); \<open>Space\<close> is \<open>\s\<close> on \<open>str\<close>.
\<close>

datatype cls = Lit uchar | LitI uchar | AnyC | Dot | OneOf "uchar list" | NoneOf "uchar list" | Space

definition is_space :: "uchar \<Rightarrow> bool" where
  "is_space c = ((9 \<le> c \<and> c \<le> 13) \<or> (28 \<le> c \<and> c \<le> 32) \<or> c = 133 \<or> c = 160 \<or> c = 5760
     \<or> (8192 \<le> c \<and> c \<le> 8202) \<or> c = 8232 \<or> c = 8233 \<or> c = 8239 \<or> c = 8287 \<or> c = 12288)"

definition fold_eq :: "uchar \<Rightarrow> uchar \<Rightarrow> bool" where
  "fold_eq p c = (c = p \<or> c + 32 = p \<or> (p = 105 \<and> (c = 304 \<or> c = 305))
     \<or> (p = 115 \<and> c = 383) \<or> (p = 107 \<and> c = 8490))"

fun cls_ok :: "cls \<Rightarrow> uchar \<Rightarrow> bool" where
  "cls_ok (Lit p) c = (c = p)"
| "cls_ok (LitI p) c = fold_eq p c"
| "cls_ok AnyC c = True"
| "cls_ok Dot c = (c \<noteq> 10)"
| "cls_ok (OneOf ps) c = (c \<in> set ps)"
| "cls_ok (NoneOf ps) c = (c \<notin> set ps)"
| "cls_ok Space c = is_space c"

text \<open>
  The patterns of the source are built from single characters, a quantified character
  (\<open>*\<close>, \<open>+\<close>, \<open>*?\<close>, \<open>+?\<close>), concatenation, alternation and capturing groups.
  \<open>Rep greedy one c\<close> is the quantified character \<open>c\<close>: greedy or lazy, and
  \<open>one\<close> when at least one occurrence is required (\<open>+\<close>, \<open>+?\<close>).
\<close>

datatype rx = Eps | Chr cls | Rep bool bool cls | Cat rx rx | Alt rx rx | Grp nat rx

type_synonym caps = "nat \<Rightarrow> str"

text \<open>
  A backtracking matcher in continuation-passing style: alternatives are tried in the
  order Python's engine tries them, so the first success is Python's match.
\<close>

fun star_greedy :: "cls \<Rightarrow> str \<Rightarrow> (str \<Rightarrow> 'a option) \<Rightarrow> 'a option" where
  "star_greedy p [] k = k []"
| "star_greedy p (x # xs) k =
     (if cls_ok p x
      then (case star_greedy p xs k of Some r \<Rightarrow> Some r | None \<Rightarrow> k (x # xs))
      else k (x # xs))"

fun star_lazy :: "cls \<Rightarrow> str \<Rightarrow> (str \<Rightarrow> 'a option) \<Rightarrow> 'a option" where
  "star_lazy p [] k = k []"
| "star_lazy p (x # xs) k =
     (case k (x # xs) of Some r \<Rightarrow> Some r
      | None \<Rightarrow> (if cls_ok p x then star_lazy p xs k else None))"

definition rep :: "bool \<Rightarrow> bool \<Rightarrow> cls \<Rightarrow> str \<Rightarrow> (str \<Rightarrow> 'a option) \<Rightarrow> 'a option" where
  "rep greedy one p s k =
     (let star = (if greedy then star_greedy p else star_lazy p)
      in if one
         then (case s of [] \<Rightarrow> None | x # xs \<Rightarrow> if cls_ok p x then star xs k else None)
         else star s k)"

fun rmatch :: "rx \<Rightarrow> str \<Rightarrow> caps \<Rightarrow> (str \<Rightarrow> caps \<Rightarrow> 'a option) \<Rightarrow> 'a option" where
  "rmatch Eps s c k = k s c"
| "rmatch (Chr p) s c k =
     (case s of [] \<Rightarrow> None | x # xs \<Rightarrow> if cls_ok p x then k xs c else None)"
| "rmatch (Rep greedy one p) s c k = rep greedy one p s (\<lambda>s'. k s' c)"
| "rmatch (Cat a b) s c k = rmatch a s c (\<lambda>s' c'. rmatch b s' c' k)"
| "rmatch (Alt a b) s c k =
     (case rmatch a s c k of Some r \<Rightarrow> Some r | None \<Rightarrow> rmatch b s c k)"
| "rmatch (Grp n a) s c k =
     rmatch a s c (\<lambda>s' c'. k s' (c'(n := take (length s - length s') s)))"

text \<open>
  \<open>match_here r s\<close> is \<open>re.match\<close> at the start of \<open>s\<close>: the number of characters
  matched and the groups (group 0 is the whole match; a group that took no part is empty).
\<close>

definition match_here :: "rx \<Rightarrow> str \<Rightarrow> (nat \<times> caps) option" where
  "match_here r s =
     rmatch r s (\<lambda>_. []) (\<lambda>s' c. Some (length s - length s',
        c(0 := take (length s - length s') s)))"

text \<open>
  \<open>re.findall\<close> and \<open>re.sub\<close> with the empty replacement scan from left to right and
  resume after each match. \<open>skip\<close> counts the characters still covered by the last
  match. Every pattern of the source consumes at least one literal character, so the
  rules of Python for empty matches never apply.
\<close>

fun findall :: "rx \<Rightarrow> nat \<Rightarrow> str \<Rightarrow> caps list" where
  "findall r skip [] = []"
| "findall r skip (x # xs) =
     (if 0 < skip then findall r (skip - 1) xs
      else (case match_here r (x # xs) of
              None \<Rightarrow> findall r 0 xs
            | Some (n, c) \<Rightarrow> c # findall r (n - 1) xs))"

fun sub_empty :: "rx \<Rightarrow> nat \<Rightarrow> str \<Rightarrow> str" where
  "sub_empty r skip [] = []"
| "sub_empty r skip (x # xs) =
     (if 0 < skip then sub_empty r (skip - 1) xs
      else (case match_here r (x # xs) of
              None \<Rightarrow> x # sub_empty r 0 xs
            | Some (n, c) \<Rightarrow> sub_empty r (n - 1) xs))"

fun cat :: "rx list \<Rightarrow> rx" where
  "cat [] = Eps"
| "cat [r] = r"
| "cat (r # rs) = Cat r (cat rs)"

fun alt :: "rx list \<Rightarrow> rx" where
  "alt [] = Eps"
| "alt [r] = r"
| "alt (r # rs) = Alt r (alt rs)"

definition lit :: "string \<Rightarrow> rx" where
  "lit s = cat (map (\<lambda>c. Chr (Lit (ord c))) s)"

text \<open>A literal under \<open>re.IGNORECASE\<close>: letters fold, other characters do not.\<close>

definition liti :: "string \<Rightarrow> rx" where
  "liti s = cat (map (\<lambda>c. if 97 \<le> ord c \<and> ord c \<le> 122 then Chr (LitI (ord c))
                           else Chr (Lit (ord c))) s)"

text \<open>
  A syntactic test used in the proofs: \<open>must_have S r\<close> holds when every match of \<open>r\<close>
  has to consume a character of \<open>S\<close>, because a literal or a positive class made of such
  characters stands on every path through the pattern.
\<close>

fun must_have :: "uchar set \<Rightarrow> rx \<Rightarrow> bool" where
  "must_have S Eps = False"
| "must_have S (Chr (Lit p)) = (p \<in> S)"
| "must_have S (Chr (OneOf ps)) = (set ps \<subseteq> S)"
| "must_have S (Chr p) = False"
| "must_have S (Rep greedy one p) = False"
| "must_have S (Cat a b) = (must_have S a \<or> must_have S b)"
| "must_have S (Alt a b) = (must_have S a \<and> must_have S b)"
| "must_have S (Grp n a) = must_have S a"

section \<open>extract_chars_from_html\<close>

text \<open>
  \<^verbatim>\<open><(script|style|noscript|meta)[^>]*?>[\s\S]*?<\/\\1>\<close> with \<open>re.IGNORECASE\<close>. In the raw
  string the pattern ends in an escaped backslash followed by the digit 1, so the closing
  tag it asks for is the five characters \<^verbatim>\<open></\1>\<close>.
\<close>

definition rx_nonrendering :: rx where
  "rx_nonrendering = cat
     [lit ''<'',
      Grp 1 (alt [liti ''script'', liti ''style'', liti ''noscript'', liti ''meta'']),
      Rep False False (NoneOf [62]), lit ''>'',
      Rep False False AnyC,
      lit ''</'', Chr (Lit 92), lit ''1>'']"

text \<open>\<^verbatim>\<open><[^>]+>\<close>\<close>

definition rx_tag :: rx where
  "rx_tag = cat [lit ''<'', Rep True True (NoneOf [62]), lit ''>'']"

text \<open>
  \<^verbatim>\<open>(alt|title|placeholder|aria-label|data-content)\s*=\s*["\']([^"\']+)["\']\<close>
  with \<open>re.IGNORECASE\<close>; 34 and 39 are the double and the single quote.
\<close>

definition rx_attr :: rx where
  "rx_attr = cat
     [Grp 1 (alt [liti ''alt'', liti ''title'', liti ''placeholder'', liti ''aria-label'',
                  liti ''data-content'']),
      Rep True False Space, lit ''='', Rep True False Space,
      Chr (OneOf [34, 39]), Grp 2 (Rep True True (NoneOf [34, 39])), Chr (OneOf [34, 39])]"

text \<open>\<^verbatim>\<open>style\s*=\s*["\'][^"\']*content:\s*["\'](.*?)["\']\<close> with \<open>re.IGNORECASE\<close>\<close>

definition rx_style_content :: rx where
  "rx_style_content = cat
     [liti ''style'', Rep True False Space, lit ''='', Rep True False Space,
      Chr (OneOf [34, 39]), Rep True False (NoneOf [34, 39]),
      liti ''content:'', Rep True False Space,
      Chr (OneOf [34, 39]), Grp 1 (Rep False False Dot), Chr (OneOf [34, 39])]"

text \<open>
  The body of \<open>extract_chars_from_html\<close> on the decoded text of the file: the loop over
  \<open>attrs\<close> appends a space and the attribute value for each match.
\<close>

definition extract_chars_from_html_text :: "str \<Rightarrow> uchar set" where
  "extract_chars_from_html_text html0 =
     (let html = sub_empty rx_nonrendering 0 html0;
          text = sub_empty rx_tag 0 html;
          attrs = findall rx_attr 0 html;
          text = foldl (\<lambda>t c. t @ u '' '' @ c 2) text attrs;
          style_contents = findall rx_style_content 0 html;
          text = text @ concat (map (\<lambda>c. c 1) style_contents)
      in set text)"

section \<open>extract_chars_from_js\<close>

text \<open>
  The three string patterns \<^verbatim>\<open>"(.*?)"\<close>, \<^verbatim>\<open>'(.*?)'\<close> and \<^verbatim>\<open>`(.*?)`\<close>, compiled with
  \<open>re.DOTALL\<close>; 34, 39 and 96 are the double quote, the single quote and the backtick.
\<close>

definition rx_quoted :: "uchar \<Rightarrow> rx" where
  "rx_quoted q = cat [Chr (Lit q), Grp 1 (Rep False False AnyC), Chr (Lit q)]"

text \<open>\<^verbatim>\<open>\${.*?}\<close>, compiled without flags: the dot stops at a line feed.\<close>

definition rx_template_expr :: rx where
  "rx_template_expr = cat [lit ''${'', Rep False False Dot, lit ''}'']"

text \<open>\<^verbatim>\<open>[>}]\t*([^<{]+?)\t*[<{]\<close>\<close>

definition rx_jsx :: rx where
  "rx_jsx = cat
     [Chr (OneOf [62, 125]), Rep True False (Lit 9),
      Grp 1 (Rep False True (NoneOf [60, 123])),
      Rep True False (Lit 9), Chr (OneOf [60, 123])]"

text \<open>\<^verbatim>\<open>console\.(log|warn|error|info)\(([^)]+)\)\<close>\<close>

definition rx_console :: rx where
  "rx_console = cat
     [lit ''console.'', Grp 1 (alt [lit ''log'', lit ''warn'', lit ''error'', lit ''info'']),
      lit ''('', Grp 2 (Rep True True (NoneOf [41])), lit '')'']"

text \<open>\<^verbatim>\<open>"(.*?)"\<close> and \<^verbatim>\<open>'(.*?)'\<close> as applied to the arguments of a console call: no flags.\<close>

definition rx_quoted_line :: "uchar \<Rightarrow> rx" where
  "rx_quoted_line q = cat [Chr (Lit q), Grp 1 (Rep False False Dot), Chr (Lit q)]"

text \<open>\<open>chars.update(match)\<close> for each match of a list, in order.\<close>

definition update_all :: "uchar set \<Rightarrow> str list \<Rightarrow> uchar set" where
  "update_all chars ms = foldl (\<lambda>cs m. cs \<union> set m) chars ms"

definition strip_template_exprs :: "str \<Rightarrow> str" where
  "strip_template_exprs m = sub_empty rx_template_expr 0 m"

definition console_arg_strings :: "str \<Rightarrow> str list" where
  "console_arg_strings args =
     map (\<lambda>c. c 1) (findall (rx_quoted_line 34) 0 args)
     @ map (\<lambda>c. c 1) (findall (rx_quoted_line 39) 0 args)"

definition extract_chars_from_js_text :: "str \<Rightarrow> uchar set" where
  "extract_chars_from_js_text js_content =
     (let chars = {};
          chars = update_all chars (map (\<lambda>c. c 1) (findall (rx_quoted 34) 0 js_content));
          chars = update_all chars (map (\<lambda>c. c 1) (findall (rx_quoted 39) 0 js_content));
          chars = update_all chars
                    (map (\<lambda>c. strip_template_exprs (c 1)) (findall (rx_quoted 96) 0 js_content));
          chars = update_all chars (map (\<lambda>c. c 1) (findall rx_jsx 0 js_content));
          chars = foldl (\<lambda>cs c. update_all cs (console_arg_strings (c 2))) chars
                    (findall rx_console 0 js_content)
      in chars)"

section \<open>collect_chars_from_directory\<close>

text \<open>
  What the scan sees of one path below the directory: what \<open>is_file()\<close> gives for it, its
  \<open>Path.suffix\<close>, and what \<open>read_text(encoding='utf-8')\<close> gives for it, the decoded text
  or the exception raised. \<open>is_file()\<close> answers \<open>False\<close> for a path that is missing, but it
  lets any other \<open>OSError\<close> of the \<open>stat\<close> call pass, a denied permission for one; so it
  gives a boolean or the exception raised.
\<close>

datatype error = OSError | UnicodeDecodeError | TTLibError

record entry =
  is_file :: "error + bool"
  suffix :: str
  read_text :: "error + str"

text \<open>
  \<open>str.lower\<close> on the suffix. No character outside ASCII lowers to one of the letters of
  the recognised extensions, so the comparisons below depend on the ASCII letters only.
\<close>

definition lower :: "str \<Rightarrow> str" where
  "lower s = map (\<lambda>c. if 65 \<le> c \<and> c \<le> 90 then c + 32 else c) s"

definition extract_chars_from_html :: "entry \<Rightarrow> error + uchar set" where
  "extract_chars_from_html f =
     (case read_text f of Inl e \<Rightarrow> Inl e | Inr html \<Rightarrow> Inr (extract_chars_from_html_text html))"

definition extract_chars_from_js :: "entry \<Rightarrow> error + uchar set" where
  "extract_chars_from_js f =
     (case read_text f of Inl e \<Rightarrow> Inl e | Inr js \<Rightarrow> Inr (extract_chars_from_js_text js))"

text \<open>
  The state of the loop: the set collected so far, the count of the files processed and
  the warnings logged.
\<close>

record scan =
  all_chars :: "uchar set"
  file_count :: nat
  warnings :: "(entry \<times> error) list"

text \<open>The \<open>try\<close> block for one path; \<open>None\<close> when the extension is not a recognised one.\<close>

definition extract_entry :: "entry \<Rightarrow> (error + uchar set) option" where
  "extract_entry f =
     (let ext = lower (suffix f)
      in if ext = u ''.html'' then Some (extract_chars_from_html f)
         else if ext \<in> set [u ''.js'', u ''.jsx'', u ''.ts'', u ''.tsx'', u ''.json'']
         then Some (extract_chars_from_js f)
         else None)"

text \<open>
  One round of the loop. The call of \<open>is_file()\<close> on line 67 stands before the \<open>try\<close> of
  line 69: an exception it raises is not caught and leaves the function (\<open>Some e\<close>). An
  exception of the extraction is caught, and the warning is logged.
\<close>

definition scan_entry :: "scan \<Rightarrow> entry \<Rightarrow> error option \<times> scan" where
  "scan_entry st f =
     (case is_file f of
        Inl e \<Rightarrow> (Some e, st)
      | Inr b \<Rightarrow>
         (if b
          then (case extract_entry f of
                  None \<Rightarrow> (None, st)
                | Some (Inr cs) \<Rightarrow>
                    (None, st\<lparr>all_chars := all_chars st \<union> cs, file_count := file_count st + 1\<rparr>)
                | Some (Inl e) \<Rightarrow> (None, st\<lparr>warnings := warnings st @ [(f, e)]\<rparr>))
          else (None, st)))"

text \<open>The loop over the listing of \<open>rglob('*')\<close>: it ends at the first exception.\<close>

fun scan_loop :: "scan \<Rightarrow> entry list \<Rightarrow> error option \<times> scan" where
  "scan_loop st [] = (None, st)"
| "scan_loop st (f # fs) =
     (case scan_entry st f of
        (Some e, st') \<Rightarrow> (Some e, st')
      | (None, st') \<Rightarrow> scan_loop st' fs)"

definition scan_directory :: "entry list \<Rightarrow> error option \<times> scan" where
  "scan_directory fs = scan_loop \<lparr>all_chars = {}, file_count = 0, warnings = []\<rparr> fs"

text \<open>
  \<open>collect_chars_from_directory\<close>: the set returned, or the exception that leaves the
  function.
\<close>

definition collect_chars_from_directory :: "entry list \<Rightarrow> error + uchar set" where
  "collect_chars_from_directory fs =
     (case scan_directory fs of
        (Some e, st) \<Rightarrow> Inl e
      | (None, st) \<Rightarrow> Inr (all_chars st))"

section \<open>create_font_subset\<close>

text \<open>
  The four fields of fontTools' \<open>Options\<close> that the source assigns. The other fields are
  never read or written by the source.
\<close>

record options =
  desubroutinize :: bool
  hinting :: bool
  legacy_cmap :: bool
  symbol_cmap :: bool

text \<open>
  fontTools is not part of the repository, so its operations are parameters: \<open>TTFont\<close>
  parses the file at a path into a font object or raises; \<open>Options\<close> is the value of
  \<open>Options()\<close>; \<open>Subsetter_subset\<close> is \<open>Subsetter(options).populate(unicodes).subset(font)\<close>,
  giving the exception raised, if any, and the state it leaves the font object in (it
  works on the object it is given); \<open>save_font\<close> gives the exception raised, if any, and
  the files it leaves behind.
\<close>

type_synonym files = "str \<rightharpoonup> nat list"

record 'f fontlib =
  TTFont :: "str \<Rightarrow> files \<Rightarrow> error + 'f"
  Options :: options
  Subsetter_subset :: "options \<Rightarrow> nat set \<Rightarrow> 'f \<Rightarrow> error option \<times> 'f"
  save_font :: "'f \<Rightarrow> str \<Rightarrow> options \<Rightarrow> files \<Rightarrow> error option \<times> files"

text \<open>
  The calls made to the library, with the font object (its address in the store) and the
  options each one is given.
\<close>

datatype call =
    TTFont_call str
  | Subset_call nat options "nat set"
  | Save_call nat str options
  | Close_call nat

text \<open>The options a logged call was given.\<close>

definition call_options :: "call \<Rightarrow> options option" where
  "call_options c =
     (case c of Subset_call a opts us \<Rightarrow> Some opts | Save_call a p opts \<Rightarrow> Some opts
      | _ \<Rightarrow> None)"

text \<open>
  The world a run acts on: what \<open>rglob('*')\<close> lists below each directory, the bytes of
  the files, the store of font objects (the address of an object is its index) and the
  log of the library calls.
\<close>

record 'f world =
  tree :: "str \<Rightarrow> entry list"
  files :: files
  objects :: "'f list"
  calls :: "call list"

text \<open>
  Lines 89 to 97: the code points of the characters, then the four whitespace characters
  of \<^verbatim>\<open>' \n\t\r'\<close>. A character is its code point here, so \<open>ord\<close> is the identity and
  the \<open>except\<close> branch of the loop is never taken.
\<close>

definition basic_chars :: "nat set" where
  "basic_chars = set [32, 10, 9, 13]"

definition unicode_set_of :: "uchar set \<Rightarrow> nat set" where
  "unicode_set_of char_set = (\<lambda>c. c) ` char_set \<union> basic_chars"

definition fixed_options :: "'f fontlib \<Rightarrow> options" where
  "fixed_options lib =
     (Options lib)\<lparr>desubroutinize := True, hinting := False, legacy_cmap := False,
                    symbol_cmap := False\<rparr>"

text \<open>\<open>subsetter.subset(font)\<close>: the object at address \<open>font\<close> is replaced by what the call leaves.\<close>

definition do_subset ::
  "'f fontlib \<Rightarrow> options \<Rightarrow> nat set \<Rightarrow> nat \<Rightarrow> 'f world \<Rightarrow> error option \<times> 'f world" where
  "do_subset lib opts unicode_set font w =
     (let (r, f') = Subsetter_subset lib opts unicode_set (objects w ! font)
      in (r, w\<lparr>objects := (objects w)[font := f'],
                calls := calls w @ [Subset_call font opts unicode_set]\<rparr>))"

definition do_save ::
  "'f fontlib \<Rightarrow> nat \<Rightarrow> str \<Rightarrow> options \<Rightarrow> 'f world \<Rightarrow> error option \<times> 'f world" where
  "do_save lib font output_path opts w =
     (let (r, fs') = save_font lib (objects w ! font) output_path opts (files w)
      in (r, w\<lparr>files := fs', calls := calls w @ [Save_call font output_path opts]\<rparr>))"

text \<open>
  \<open>create_font_subset\<close>: \<open>Some e\<close> is the exception that leaves the function (it has no
  handler for the library calls), \<open>None\<close> a normal return.
\<close>

definition create_font_subset ::
  "'f fontlib \<Rightarrow> str \<Rightarrow> str \<Rightarrow> uchar set \<Rightarrow> 'f world \<Rightarrow> error option \<times> 'f world" where
  "create_font_subset lib font_path output_path char_set w0 =
     (let w1 = w0\<lparr>calls := calls w0 @ [TTFont_call font_path]\<rparr>
      in case TTFont lib font_path (files w0) of
           Inl e \<Rightarrow> (Some e, w1)
         | Inr f \<Rightarrow>
            (let font = length (objects w1);
                 w2 = w1\<lparr>objects := objects w1 @ [f]\<rparr>;
                 opts = fixed_options lib;
                 unicode_set = unicode_set_of char_set;
                 (r3, w3) = (if unicode_set \<noteq> {} then do_subset lib opts unicode_set font w2
                             else (None, w2))
             in case r3 of
                  Some e \<Rightarrow> (Some e, w3)
                | None \<Rightarrow>
                   (let (r4, w4) = do_save lib font output_path opts w3
                    in case r4 of
                         Some e \<Rightarrow> (Some e, w4)
                       | None \<Rightarrow> (None, w4\<lparr>calls := calls w4 @ [Close_call font]\<rparr>))))"

section \<open>main\<close>

text \<open>
  The command line as \<open>argparse\<close> sees it: the value given for each option, if any.
  \<open>-d\<close> and \<open>-f\<close> are required; \<open>-o\<close> and \<open>-k\<close> have defaults.
\<close>

record argv =
  opt_directory :: "str option"
  opt_font :: "str option"
  opt_output :: "str option"
  opt_keep :: "str option"

record args =
  arg_directory :: str
  arg_font :: str
  arg_output :: str
  arg_keep :: str

text \<open>The default of \<open>--keep\<close>: the nineteen characters of the Chinese sentence of line 117.\<close>

definition keep_default :: str where
  "keep_default = [33521, 25991, 30340, 25152, 26377, 23383, 27597, 21644, 38463, 25289,
     20271, 25968, 23383, 20197, 21450, 24120, 29992, 31526, 21495]"

definition parse_args :: "argv \<Rightarrow> args option" where
  "parse_args av =
     (case (opt_directory av, opt_font av) of
        (Some d, Some f) \<Rightarrow>
          Some \<lparr>arg_directory = d, arg_font = f,
                arg_output = (case opt_output av of None \<Rightarrow> u ''Output.ttf'' | Some p \<Rightarrow> p),
                arg_keep = (case opt_keep av of None \<Rightarrow> keep_default | Some k \<Rightarrow> k)\<rparr>
      | _ \<Rightarrow> None)"

text \<open>\<open>string.digits + string.ascii_letters + string.punctuation\<close>\<close>

definition digits :: str where
  "digits = u ''0123456789''"

definition ascii_letters :: str where
  "ascii_letters = u ''abcdefghijklmnopqrstuvwxyzABCDEFGHIJKLMNOPQRSTUVWXYZ''"

definition punctuation :: str where
  "punctuation = [33, 34, 35, 36, 37, 38, 39, 40, 41, 42, 43, 44, 45, 46, 47, 58, 59, 60, 61,
     62, 63, 64, 91, 92, 93, 94, 95, 96, 123, 124, 125, 126]"

text \<open>
  Lines 120 to 123: the character set \<open>main\<close> hands to \<open>create_font_subset\<close>, or the
  exception that left the scan.
\<close>

definition main_char_set :: "args \<Rightarrow> entry list \<Rightarrow> error + uchar set" where
  "main_char_set a fs =
     (case collect_chars_from_directory fs of
        Inl e \<Rightarrow> Inl e
      | Inr char_set \<Rightarrow>
         (let char_set = char_set \<union> set (digits @ ascii_letters @ punctuation);
              char_set = (if arg_keep a \<noteq> [] then char_set \<union> set (arg_keep a)
                          else char_set)
          in Inr char_set))"

text \<open>
  \<open>main\<close> up to the exit status of the process: 2 when \<open>argparse\<close> rejects the command
  line, 1 when an exception leaves \<open>main\<close> (from the scan, from \<open>create_font_subset\<close>,
  from \<open>stat\<close> on a missing file, or from the division by the size of an empty font
  file), 0 otherwise.
\<close>

definition main :: "'f fontlib \<Rightarrow> argv \<Rightarrow> 'f world \<Rightarrow> nat \<times> 'f world" where
  "main lib av w =
     (case parse_args av of
        None \<Rightarrow> (2, w)
      | Some a \<Rightarrow>
         (case main_char_set a (tree w (arg_directory a)) of
            Inl e \<Rightarrow> (1, w)
          | Inr char_set \<Rightarrow>
             (let (r, w') = create_font_subset lib (arg_font a) (arg_output a) char_set w
              in case r of
                   Some e \<Rightarrow> (1, w')
                 | None \<Rightarrow>
                    (case (files w' (arg_font a), files w' (arg_output a)) of
                       (Some orig, Some new) \<Rightarrow> if length orig = 0 then (1, w') else (0, w')
                     | _ \<Rightarrow> (1, w')))))"

section \<open>Concrete inputs for the worked runs\<close>

definition scan0 :: scan where
  "scan0 = \<lparr>all_chars = {}, file_count = 0, warnings = []\<rparr>"

definition page_entry :: entry where
  "page_entry =
     \<lparr>is_file = Inr True, suffix = u ''.HTML'', read_text = Inr (u ''<b>q</b>'')\<rparr>"

definition broken_entry :: entry where
  "broken_entry =
     \<lparr>is_file = Inr True, suffix = u ''.js'', read_text = Inl UnicodeDecodeError\<rparr>"

definition script_entry :: entry where
  "script_entry = \<lparr>is_file = Inr True, suffix = u ''.ts'', read_text = Inr (u ''>y<'')\<rparr>"

text \<open>A path whose \<open>stat\<close> is denied: \<open>is_file()\<close> raises \<open>PermissionError\<close>, an \<open>OSError\<close>.\<close>

definition locked_entry :: entry where
  "locked_entry = \<lparr>is_file = Inl OSError, suffix = u ''.html'', read_text = Inl OSError\<rparr>"

text \<open>The character set \<open>main\<close> computes for the command line of \<open>demo_args\<close> below.\<close>

definition demo_chars :: "uchar set" where
  "demo_chars = set (digits @ ascii_letters @ punctuation) \<union> set (u ''A'')"

text \<open>
  A small instance of the library: a font is the list of the code points it covers, kept
  as the content of its file; subsetting keeps the requested code points; saving stores
  the list at the path.
\<close>

definition demo_lib :: "nat list fontlib" where
  "demo_lib =
     \<lparr>TTFont = (\<lambda>p fs. case fs p of None \<Rightarrow> Inl OSError | Some b \<Rightarrow> Inr b),
      Options = \<lparr>desubroutinize = False, hinting = True, legacy_cmap = False,
                 symbol_cmap = False\<rparr>,
      Subsetter_subset = (\<lambda>opts us f. (None, filter (\<lambda>c. c \<in> us) f)),
      save_font = (\<lambda>f p opts fs. (None, fs(p \<mapsto> f)))\<rparr>"

text \<open>
  The same library on a full disk: \<open>save_font\<close> opens the output file for writing, which
  empties it, and the write raises.
\<close>

definition full_disk_lib :: "nat list fontlib" where
  "full_disk_lib = demo_lib\<lparr>save_font := (\<lambda>f p opts fs. (Some OSError, fs(p \<mapsto> [])))\<rparr>"

text \<open>The same library with a subsetter that raises.\<close>

definition strict_lib :: "nat list fontlib" where
  "strict_lib = demo_lib\<lparr>Subsetter_subset := (\<lambda>opts us f. (Some TTLibError, []))\<rparr>"

definition demo_world :: "nat list world" where
  "demo_world =
     \<lparr>tree = (\<lambda>d. []),
      files = [u ''font.ttf'' \<mapsto> [65, 66, 32], u ''Output.ttf'' \<mapsto> [1, 2, 3]],
      objects = [],
      calls = []\<rparr>"

definition on_opts :: options where
  "on_opts = \<lparr>desubroutinize = True, hinting = False, legacy_cmap = False,
               symbol_cmap = False\<rparr>"

definition demo_argv :: argv where
  "demo_argv = \<lparr>opt_directory = Some (u ''site''), opt_font = Some (u ''font.ttf''),
                 opt_output = None, opt_keep = Some (u ''A'')\<rparr>"

definition demo_args :: args where
  "demo_args = \<lparr>arg_directory = u ''site'', arg_font = u ''font.ttf'',
                 arg_output = u ''Output.ttf'', arg_keep = u ''A''\<rparr>"

definition missing_argv :: argv where
  "missing_argv = demo_argv\<lparr>opt_font := Some (u ''none.ttf'')\<rparr>"

definition missing_args :: args where
  "missing_args = demo_args\<lparr>arg_font := u ''none.ttf''\<rparr>"

section \<open>The matcher\<close>

lemma star_greedy_calls:
  "star_greedy p s k = Some res \<Longrightarrow> \<exists>s'. set s' \<subseteq> set s \<and> k s' = Some res"
proof (induction s)
  case Nil
  then show ?case by auto
next
  case (Cons x xs)
  from Cons.prems consider "star_greedy p xs k = Some res" | "k (x # xs) = Some res"
    by (auto split: if_splits option.splits)
  then show ?case
  proof cases
    case 1
    from Cons.IH [OF this] obtain s' where "set s' \<subseteq> set xs" and "k s' = Some res" by blast
    then have "set s' \<subseteq> set (x # xs) \<and> k s' = Some res" by auto
    then show ?thesis ..
  next
    case 2
    then have "set (x # xs) \<subseteq> set (x # xs) \<and> k (x # xs) = Some res" by simp
    then show ?thesis ..
  qed
qed

lemma star_lazy_calls:
  "star_lazy p s k = Some res \<Longrightarrow> \<exists>s'. set s' \<subseteq> set s \<and> k s' = Some res"
proof (induction s)
  case Nil
  then show ?case by auto
next
  case (Cons x xs)
  from Cons.prems consider "star_lazy p xs k = Some res" | "k (x # xs) = Some res"
    by (auto split: if_splits option.splits)
  then show ?case
  proof cases
    case 1
    from Cons.IH [OF this] obtain s' where "set s' \<subseteq> set xs" and "k s' = Some res" by blast
    then have "set s' \<subseteq> set (x # xs) \<and> k s' = Some res" by auto
    then show ?thesis ..
  next
    case 2
    then have "set (x # xs) \<subseteq> set (x # xs) \<and> k (x # xs) = Some res" by simp
    then show ?thesis ..
  qed
qed

lemma rep_calls:
  fixes k :: "str \<Rightarrow> 'a option"
  assumes "rep greedy one p s k = Some res"
  shows "\<exists>s'. set s' \<subseteq> set s \<and> k s' = Some res"
proof -
  define star :: "str \<Rightarrow> (str \<Rightarrow> 'a option) \<Rightarrow> 'a option"
    where "star = (if greedy then star_greedy p else star_lazy p)"
  have star: "\<exists>s'. set s' \<subseteq> set t \<and> k s' = Some res" if "star t k = Some res" for t
    using that star_greedy_calls [of p t k res] star_lazy_calls [of p t k res]
    by (auto simp: star_def split: if_splits)
  show ?thesis
  proof (cases one)
    case False
    with assms have "star s k = Some res" by (simp add: rep_def star_def)
    then show ?thesis by (rule star)
  next
    case True
    with assms obtain x xs where s: "s = x # xs" and "star xs k = Some res"
      by (cases s) (auto simp: rep_def star_def split: if_splits)
    from star [OF this(2)] obtain s' where "set s' \<subseteq> set xs" and "k s' = Some res" by blast
    with s have "set s' \<subseteq> set s \<and> k s' = Some res" by auto
    then show ?thesis ..
  qed
qed

lemma rmatch_calls:
  "rmatch r s c k = Some res \<Longrightarrow>
   \<exists>s' c'. k s' c' = Some res \<and> set s' \<subseteq> set s \<and> (\<forall>g. set (c' g) \<subseteq> set (c g) \<union> set s)"
proof (induction r arbitrary: s c k res)
  case Eps
  then show ?case by auto
next
  case (Chr p)
  then show ?case by (cases s) (auto split: if_splits)
next
  case (Rep greedy one p)
  then show ?case by (auto dest!: rep_calls)
next
  case (Cat a b)
  from Cat.prems have "rmatch a s c (\<lambda>s' c'. rmatch b s' c' k) = Some res" by simp
  from Cat.IH(1) [OF this] obtain s1 c1 where
    b: "rmatch b s1 c1 k = Some res" and s1: "set s1 \<subseteq> set s"
    and c1: "\<forall>g. set (c1 g) \<subseteq> set (c g) \<union> set s" by blast
  from Cat.IH(2) [OF b] obtain s2 c2 where
    k: "k s2 c2 = Some res" and s2: "set s2 \<subseteq> set s1"
    and c2: "\<forall>g. set (c2 g) \<subseteq> set (c1 g) \<union> set s1" by blast
  have "\<forall>g. set (c2 g) \<subseteq> set (c g) \<union> set s"
    using c1 c2 s1 by blast
  with k s1 s2 show ?case by blast
next
  case (Alt a b)
  then show ?case by (auto split: option.splits)
next
  case (Grp n a)
  from Grp.prems have
    "rmatch a s c (\<lambda>s' c'. k s' (c'(n := take (length s - length s') s))) = Some res" by simp
  from Grp.IH [OF this] obtain s1 c1 where
    k: "k s1 (c1(n := take (length s - length s1) s)) = Some res" and s1: "set s1 \<subseteq> set s"
    and c1: "\<forall>g. set (c1 g) \<subseteq> set (c g) \<union> set s" by blast
  have "\<forall>g. set ((c1(n := take (length s - length s1) s)) g) \<subseteq> set (c g) \<union> set s"
    using c1 by (auto dest: in_set_takeD)
  with k s1 show ?case by blast
qed

lemma must_have_fails:
  "must_have S r \<Longrightarrow> set s \<inter> S = {} \<Longrightarrow> rmatch r s c k = None"
proof (induction r arbitrary: s c k)
  case Eps
  then show ?case by simp
next
  case (Chr p)
  then show ?case by (cases p; cases s) auto
next
  case (Rep greedy one p)
  then show ?case by simp
next
  case (Cat a b)
  show ?case
  proof (cases "must_have S a")
    case True
    then show ?thesis using Cat.IH(1) Cat.prems(2) by simp
  next
    case False
    with Cat.prems(1) have mb: "must_have S b" by simp
    show ?thesis
    proof (rule ccontr)
      assume "rmatch (Cat a b) s c k \<noteq> None"
      then obtain res where "rmatch a s c (\<lambda>s' c'. rmatch b s' c' k) = Some res" by auto
      from rmatch_calls [OF this] obtain s1 c1 where
        b: "rmatch b s1 c1 k = Some res" and s1: "set s1 \<subseteq> set s" by blast
      from s1 Cat.prems(2) have "set s1 \<inter> S = {}" by blast
      from Cat.IH(2) [OF mb this] b show False by simp
    qed
  qed
next
  case (Alt a b)
  then show ?case by simp
next
  case (Grp n a)
  then show ?case by simp
qed

lemma match_here_must_have:
  "must_have S r \<Longrightarrow> set s \<inter> S = {} \<Longrightarrow> match_here r s = None"
  by (simp add: match_here_def must_have_fails)



lemma sub_empty_must_have:
  "must_have S r \<Longrightarrow> set s \<inter> S = {} \<Longrightarrow> sub_empty r 0 s = s"
proof (induction s)
  case Nil
  then show ?case by simp
next
  case (Cons x xs)
  from Cons.prems have "match_here r (x # xs) = None"
    by (rule match_here_must_have)
  moreover from Cons.prems have "set xs \<inter> S = {}" by auto
  ultimately show ?case using Cons.IH Cons.prems(1) by simp
qed


lemma must_have_patterns:
  "must_have {92} rx_nonrendering"
  "must_have {q} (rx_quoted q)"
  "must_have {q} (rx_quoted_line q)"
  "must_have {60, 123} rx_jsx"
  "must_have {123} rx_template_expr"
  by (simp_all add: rx_nonrendering_def rx_quoted_def rx_quoted_line_def rx_jsx_def
      rx_template_expr_def lit_def liti_def ord_def)

section \<open>The directory scan\<close>


lemma scan_entry_fst:
  "fst (scan_entry st f) = (case is_file f of Inl e \<Rightarrow> Some e | Inr b \<Rightarrow> None)"
  by (simp add: scan_entry_def split: sum.splits option.splits)

lemma scan_entry_all_chars:
  "all_chars (snd (scan_entry st f)) = all_chars st \<union> all_chars (snd (scan_entry scan0 f))"
  by (simp add: scan_entry_def scan0_def split: sum.splits option.splits)

lemma scan_entry_warnings:
  "warnings (snd (scan_entry st f)) = warnings st @ warnings (snd (scan_entry scan0 f))"
  by (simp add: scan_entry_def scan0_def split: sum.splits option.splits)

lemma scan_entry_contribution:
  "all_chars (snd (scan_entry scan0 f))
     = \<Union> {cs. is_file f = Inr True \<and> extract_entry f = Some (Inr cs)}"
  by (auto simp: scan_entry_def scan0_def split: sum.splits option.splits)


lemma scan_loop_returns:
  assumes "\<forall>f\<in>set fs. \<exists>b. is_file f = Inr b"
  shows "fst (scan_loop st fs) = None
     \<and> all_chars (snd (scan_loop st fs))
         = all_chars st \<union> (\<Union>f\<in>set fs. all_chars (snd (scan_entry scan0 f)))
     \<and> warnings (snd (scan_loop st fs))
         = warnings st @ concat (map (\<lambda>f. warnings (snd (scan_entry scan0 f))) fs)"
  using assms
proof (induction fs arbitrary: st)
  case Nil
  then show ?case by simp
next
  case (Cons f fs)
  from Cons.prems obtain b where "is_file f = Inr b" by auto
  then obtain st' where st': "scan_entry st f = (None, st')"
    using scan_entry_fst [of st f] by (cases "scan_entry st f") simp
  have a: "all_chars st' = all_chars st \<union> all_chars (snd (scan_entry scan0 f))"
    using scan_entry_all_chars [of st f] st' by simp
  have w: "warnings st' = warnings st @ warnings (snd (scan_entry scan0 f))"
    using scan_entry_warnings [of st f] st' by simp
  from Cons.prems have "\<forall>g\<in>set fs. \<exists>b. is_file g = Inr b" by simp
  from Cons.IH [OF this, of st'] show ?case
    using st' a w by auto
qed




lemma scan_loop_aborts:
  "f \<in> set fs \<Longrightarrow> is_file f = Inl e \<Longrightarrow> fst (scan_loop st fs) \<noteq> None"
proof (induction fs arbitrary: st)
  case Nil
  then show ?case by simp
next
  case (Cons g fs)
  obtain r st1 where s1: "scan_entry st g = (r, st1)" by (cases "scan_entry st g")
  show ?case
  proof (cases r)
    case (Some e')
    with s1 show ?thesis by simp
  next
    case None
    with s1 scan_entry_fst [of st g] have "is_file g \<noteq> Inl e"
      by (auto split: sum.splits)
    with Cons.prems have "f \<in> set fs" by auto
    from Cons.IH [OF this Cons.prems(2), of st1] s1 None show ?thesis by simp
  qed
qed


lemma collect_eq:
  "collect_chars_from_directory fs =
     (case fst (scan_directory fs) of Some e \<Rightarrow> Inl e
      | None \<Rightarrow> Inr (all_chars (snd (scan_directory fs))))"
  by (simp add: collect_chars_from_directory_def split: prod.splits option.splits)

lemma collect_returns:
  assumes "\<forall>f\<in>set fs. \<exists>b. is_file f = Inr b"
  shows "collect_chars_from_directory fs
     = Inr (\<Union> {cs. \<exists>f\<in>set fs. is_file f = Inr True \<and> extract_entry f = Some (Inr cs)})"
proof -
  have "(\<Union>f\<in>set fs. all_chars (snd (scan_entry scan0 f)))
      = \<Union> {cs. \<exists>f\<in>set fs. is_file f = Inr True \<and> extract_entry f = Some (Inr cs)}"
    unfolding scan_entry_contribution by blast
  with scan_loop_returns [OF assms, of scan0] show ?thesis
    by (simp add: collect_eq scan_directory_def scan0_def)
qed


lemma collect_Inr_iff:
  "collect_chars_from_directory fs = Inr cs \<longleftrightarrow>
     (\<forall>f\<in>set fs. \<exists>b. is_file f = Inr b)
     \<and> cs = \<Union> {cs'. \<exists>f\<in>set fs. is_file f = Inr True \<and> extract_entry f = Some (Inr cs')}"
proof (cases "\<forall>f\<in>set fs. \<exists>b. is_file f = Inr b")
  case True
  with collect_returns [OF True] show ?thesis by auto
next
  case False
  then obtain f e where f: "f \<in> set fs" and e: "is_file f = Inl e"
    by (metis sum.exhaust)
  have "collect_chars_from_directory fs \<noteq> Inr cs"
  proof
    assume "collect_chars_from_directory fs = Inr cs"
    then have "fst (scan_loop scan0 fs) = None"
      by (simp add: collect_eq scan_directory_def scan0_def split: option.splits)
    with scan_loop_aborts [OF f e, of scan0] show False by simp
  qed
  with False show ?thesis by simp
qed



lemma extract_entry_Inr:
  "extract_entry f = Some (Inr cs) \<longleftrightarrow>
     (lower (suffix f) = u ''.html'' \<and> extract_chars_from_html f = Inr cs)
     \<or> (lower (suffix f) \<in> set [u ''.js'', u ''.jsx'', u ''.ts'', u ''.tsx'', u ''.json'']
        \<and> extract_chars_from_js f = Inr cs)"
  by (auto simp: extract_entry_def Let_def u_def ord_def)

lemma page_chars: "collect_chars_from_directory [page_entry] = Inr {113}"
  by code_simp

lemma both_chars: "collect_chars_from_directory [page_entry, script_entry] = Inr {113, 121}"
  by code_simp


text \<open>
  C4, as the claim states it: in every scan in which the extraction of a file raises,
  the scan returns the union of the character sets of the files processed successfully.
  In the listing below the extraction of the second file raises and is skipped, the
  first file was processed successfully, and \<open>is_file()\<close> raises for the third path:
  the exception leaves the function and no set is returned.
\<close>

theorem scan_aborts_on_is_file:
  "is_file broken_entry = Inr True
   \<and> extract_entry broken_entry = Some (Inl UnicodeDecodeError)
   \<and> collect_chars_from_directory [page_entry] = Inr {113}
   \<and> collect_chars_from_directory [page_entry, broken_entry, locked_entry] = Inl OSError"
  by code_simp



text \<open>
  C8. The scan returns a set exactly when \<open>is_file()\<close> raises for no path of the
  listing, and the set is then the union of the results of \<open>extract_chars_from_html\<close>
  on the regular files with the extension html and of \<open>extract_chars_from_js\<close> on those
  with a script extension, taken over the files whose extraction returns. Two listings
  of the same files, in any order and with any repetition, return the same set.
\<close>

theorem collect_union_any_order:
  "(collect_chars_from_directory fs = Inr cs \<longleftrightarrow>
      (\<forall>f\<in>set fs. \<exists>b. is_file f = Inr b)
      \<and> cs = \<Union> {cs'. \<exists>f\<in>set fs. is_file f = Inr True
              \<and> ((lower (suffix f) = u ''.html'' \<and> extract_chars_from_html f = Inr cs')
                 \<or> (lower (suffix f) \<in> set [u ''.js'', u ''.jsx'', u ''.ts'', u ''.tsx'', u ''.json'']
                    \<and> extract_chars_from_js f = Inr cs'))})
   \<and> (set fs' = set fs \<longrightarrow>
        (collect_chars_from_directory fs' = Inr cs \<longleftrightarrow> collect_chars_from_directory fs = Inr cs))"
  unfolding collect_Inr_iff extract_entry_Inr by simp

theorem collect_union_any_order_witness:
  "set [script_entry, page_entry, script_entry] = set [page_entry, script_entry]
   \<and> collect_chars_from_directory [page_entry, script_entry] = Inr {113, 121}
   \<and> collect_chars_from_directory [script_entry, page_entry, script_entry] = Inr {113, 121}"
proof -
  have h: "set [script_entry, page_entry, script_entry] = set [page_entry, script_entry]"
    by auto
  from collect_union_any_order [of "[page_entry, script_entry]" "{113, 121}" "[script_entry, page_entry, script_entry]"]
    h both_chars
  show ?thesis by simp
qed

section \<open>The HTML extraction\<close>

text \<open>
  The removal of the non-rendering elements changes nothing in a text without a
  backslash: the pattern asks for one in the closing tag.
\<close>

lemma nonrendering_removal_needs_backslash:
  "92 \<notin> set html \<Longrightarrow> sub_empty rx_nonrendering 0 html = html"
  by (rule sub_empty_must_have [OF must_have_patterns(1)]) simp


text \<open>
  C1. The source means to remove script, style, noscript and meta elements with their
  content, but its pattern never matches an ordinary closing tag: for the file
  \<^verbatim>\<open><script>x</script>\<close> the extraction returns the character x, which occurs only
  inside the script element.
\<close>

theorem html_script_content_kept:
  "extract_chars_from_html
     \<lparr>is_file = Inr True, suffix = u ''.html'',
      read_text = Inr (u ''<script>x</script>'')\<rparr>
   = Inr {ord CHR ''x''}"
  by code_simp

section \<open>The script extraction\<close>


























section \<open>The default of the keep option\<close>

text \<open>
  C2. Without \<open>-k\<close> on the command line, the characters of the descriptive default
  sentence are added to the set: its first character, code point 33521, is in the set
  handed to the subsetting although it is no letter, digit or punctuation character and
  the directory has no file.
\<close>

theorem default_keep_adds_description:
  "\<exists>a cs. parse_args \<lparr>opt_directory = Some (u ''site''), opt_font = Some (u ''font.ttf''),
                    opt_output = None, opt_keep = None\<rparr> = Some a
     \<and> main_char_set a [] = Inr cs
     \<and> 33521 \<in> cs
     \<and> 33521 \<notin> set (digits @ ascii_letters @ punctuation)"
  by (simp add: parse_args_def main_char_set_def collect_chars_from_directory_def
      scan_directory_def keep_default_def digits_def ascii_letters_def punctuation_def
      u_def ord_def)

section \<open>The subsetting run\<close>

lemma demo_run:
  "create_font_subset demo_lib (u ''font.ttf'') (u ''Output.ttf'') {65} demo_world
   = (None, demo_world\<lparr>files := (files demo_world)(u ''Output.ttf'' \<mapsto> [65, 32]),
        objects := [[65, 32]],
        calls := [TTFont_call (u ''font.ttf''), Subset_call 0 on_opts {65, 32, 10, 9, 13},
                  Save_call 0 (u ''Output.ttf'') on_opts, Close_call 0]\<rparr>)"
  by (simp add: create_font_subset_def demo_lib_def demo_world_def u_def ord_def do_subset_def do_save_def
      fixed_options_def unicode_set_of_def basic_chars_def on_opts_def insert_commute Let_def)

lemma create_calls:
  "\<exists>new. calls (snd (create_font_subset lib fp out cs w)) = calls w @ new
      \<and> set new \<subseteq> {TTFont_call fp, Subset_call (length (objects w)) (fixed_options lib) (unicode_set_of cs),
             Save_call (length (objects w)) out (fixed_options lib), Close_call (length (objects w))}"
  by (auto simp: create_font_subset_def do_subset_def do_save_def Let_def split: sum.splits option.splits prod.splits if_splits)

lemma unicode_set_nonempty: "unicode_set_of cs \<noteq> {}"
  by (simp add: unicode_set_of_def basic_chars_def)

lemma create_parse_fails:
  "TTFont lib fp (files w) = Inl e \<Longrightarrow>
   create_font_subset lib fp out cs w = (Some e, w\<lparr>calls := calls w @ [TTFont_call fp]\<rparr>)"
  by (simp add: create_font_subset_def)

lemma create_parsed:
  assumes "TTFont lib fp (files w) = Inr f"
    and "Subsetter_subset lib (fixed_options lib) (unicode_set_of cs) f = (r, f')"
  shows "create_font_subset lib fp out cs w =
     (let font = length (objects w);
          w3 = w\<lparr>objects := objects w @ [f'],
                 calls := calls w @ [TTFont_call fp,
                            Subset_call font (fixed_options lib) (unicode_set_of cs)]\<rparr>
      in case r of
           Some e \<Rightarrow> (Some e, w3)
         | None \<Rightarrow>
            (case save_font lib f' out (fixed_options lib) (files w) of
               (Some e, fs') \<Rightarrow>
                 (Some e, w3\<lparr>files := fs',
                     calls := calls w3 @ [Save_call font out (fixed_options lib)]\<rparr>)
             | (None, fs') \<Rightarrow>
                 (None, w3\<lparr>files := fs',
                     calls := calls w3 @ [Save_call font out (fixed_options lib),
                                Close_call font]\<rparr>)))"
  using assms unicode_set_nonempty [of cs]
  by (simp add: create_font_subset_def do_subset_def do_save_def Let_def
      split: option.splits prod.splits)

text \<open>
  C10. Every call that carries options during a run of \<open>create_font_subset\<close> carries
  the same four settings, whatever the library's defaults, the paths, the character set
  and the world are: subroutines are inlined, hinting is off, legacy and symbol character
  maps are off.
\<close>

theorem options_fixed:
  assumes "c \<in> set (drop (length (calls w)) (calls (snd (create_font_subset lib fp out cs w))))"
    and "call_options c = Some opts"
  shows "desubroutinize opts \<and> \<not> hinting opts \<and> \<not> legacy_cmap opts \<and> \<not> symbol_cmap opts"
proof -
  obtain new where n: "calls (snd (create_font_subset lib fp out cs w)) = calls w @ new"
    and s: "set new \<subseteq> {TTFont_call fp, Subset_call (length (objects w)) (fixed_options lib) (unicode_set_of cs),
             Save_call (length (objects w)) out (fixed_options lib), Close_call (length (objects w))}"
    using create_calls by blast
  from assms(1) n have "c \<in> set new" by simp
  with s assms(2) have "opts = fixed_options lib"
    by (auto simp: call_options_def)
  then show ?thesis by (simp add: fixed_options_def)
qed

theorem options_fixed_witness:
  "Save_call 0 (u ''Output.ttf'') on_opts
     \<in> set (drop (length (calls demo_world))
         (calls (snd (create_font_subset demo_lib (u ''font.ttf'') (u ''Output.ttf'') {65} demo_world))))
   \<and> call_options (Save_call 0 (u ''Output.ttf'') on_opts) = Some on_opts
   \<and> desubroutinize on_opts \<and> \<not> hinting on_opts \<and> \<not> legacy_cmap on_opts \<and> \<not> symbol_cmap on_opts"
proof -
  have h1: "Save_call 0 (u ''Output.ttf'') on_opts
     \<in> set (drop (length (calls demo_world))
         (calls (snd (create_font_subset demo_lib (u ''font.ttf'') (u ''Output.ttf'') {65} demo_world))))"
    by (simp add: demo_run) (simp add: demo_world_def)
  have h2: "call_options (Save_call 0 (u ''Output.ttf'') on_opts) = Some on_opts"
    by (simp add: call_options_def)
  from options_fixed [OF h1 h2] h1 h2 show ?thesis by simp
qed


text \<open>
  C6. For every character set, the empty one included, the code points handed to the
  subsetter contain those of space, line feed, tab and carriage return; the set is never
  empty, and once the font is parsed the subsetter is called with it.
\<close>

theorem whitespace_always_added:
  "{32, 10, 9, 13} \<subseteq> unicode_set_of cs \<and> unicode_set_of cs \<noteq> {}
   \<and> (TTFont lib fp (files w) = Inr f \<longrightarrow>
        Subset_call (length (objects w)) (fixed_options lib) (unicode_set_of cs)
          \<in> set (calls (snd (create_font_subset lib fp out cs w))))"
proof -
  have a: "{32, 10, 9, 13} \<subseteq> unicode_set_of cs"
    by (simp add: unicode_set_of_def basic_chars_def)
  have c: "Subset_call (length (objects w)) (fixed_options lib) (unicode_set_of cs)
          \<in> set (calls (snd (create_font_subset lib fp out cs w)))"
    if p: "TTFont lib fp (files w) = Inr f"
  proof -
    obtain r f' where s: "Subsetter_subset lib (fixed_options lib) (unicode_set_of cs) f = (r, f')"
      by (cases "Subsetter_subset lib (fixed_options lib) (unicode_set_of cs) f")
    show ?thesis
      by (simp add: create_parsed [OF p s] Let_def split: option.splits prod.splits)
  qed
  from a unicode_set_nonempty c show ?thesis by blast
qed

theorem whitespace_always_added_witness:
  "TTFont demo_lib (u ''font.ttf'') (files demo_world) = Inr [65, 66, 32]
   \<and> {32, 10, 9, 13} \<subseteq> unicode_set_of {}
   \<and> Subset_call 0 (fixed_options demo_lib) (unicode_set_of {})
        \<in> set (calls (snd (create_font_subset demo_lib (u ''font.ttf'') (u ''Output.ttf'') {} demo_world)))"
proof -
  have h: "TTFont demo_lib (u ''font.ttf'') (files demo_world) = Inr [65, 66, 32]"
    by (simp add: demo_lib_def demo_world_def u_def ord_def)
  from whitespace_always_added [of "{}" demo_lib "u ''font.ttf''" demo_world "[65, 66, 32]" "u ''Output.ttf''"] h
  show ?thesis by (simp add: demo_world_def)
qed

text \<open>
  C3, as the claim states it: a failing run leaves the output path unchanged. With a
  writer that raises after it has opened the output file, the run ends in the exception
  and the file that was at the output path is empty.
\<close>

theorem failed_save_empties_output:
  "fst (create_font_subset full_disk_lib (u ''font.ttf'') (u ''Output.ttf'') {65} demo_world)
     = Some OSError
   \<and> files demo_world (u ''Output.ttf'') = Some [1, 2, 3]
   \<and> files (snd (create_font_subset full_disk_lib (u ''font.ttf'') (u ''Output.ttf'') {65}
        demo_world)) (u ''Output.ttf'') = Some []"
  by (simp add: create_font_subset_def full_disk_lib_def demo_lib_def demo_world_def u_def ord_def
      do_subset_def do_save_def fixed_options_def unicode_set_of_def basic_chars_def Let_def)

text \<open>
  C3, amended. When the parse, subset or save step raises, \<open>main\<close> exits with status 1.
  The files are untouched when the parse or the subset step raised; when the save step
  raised they are what \<open>save_font\<close>, called on the output path itself, left behind.
\<close>

theorem failure_exits_nonzero:
  assumes "parse_args av = Some a"
    and "main_char_set a (tree w (arg_directory a)) = Inr cs"
    and "fst (create_font_subset lib (arg_font a) (arg_output a) cs w) = Some e"
  shows "fst (main lib av w) = 1
     \<and> files (snd (main lib av w)) =
         (case TTFont lib (arg_font a) (files w) of
            Inl e1 \<Rightarrow> files w
          | Inr f \<Rightarrow>
             (case Subsetter_subset lib (fixed_options lib) (unicode_set_of cs) f of
                (Some e2, f') \<Rightarrow> files w
              | (None, f') \<Rightarrow>
                  snd (save_font lib f' (arg_output a) (fixed_options lib) (files w))))"
proof -
  define R where "R = create_font_subset lib (arg_font a) (arg_output a) cs w"
  have raised: "fst R = Some e"
    using assms(3) by (simp add: R_def)
  have "R = (Some e, snd R)"
    using raised by (cases R) simp
  then have "create_font_subset lib (arg_font a) (arg_output a) cs w = (Some e, snd R)"
    by (simp add: R_def)
  then have "main lib av w = (1, snd R)"
    using assms(1,2) by (simp add: main_def)
  then have exit: "fst (main lib av w) = 1" and left: "snd (main lib av w) = snd R"
    by simp_all
  have "files (snd R) =
         (case TTFont lib (arg_font a) (files w) of
            Inl e1 \<Rightarrow> files w
          | Inr f \<Rightarrow>
             (case Subsetter_subset lib (fixed_options lib) (unicode_set_of cs) f of
                (Some e2, f') \<Rightarrow> files w
              | (None, f') \<Rightarrow>
                  snd (save_font lib f' (arg_output a) (fixed_options lib) (files w))))"
  proof (cases "TTFont lib (arg_font a) (files w)")
    case (Inl e1)
    then show ?thesis
      by (simp add: R_def create_parse_fails)
  next
    case (Inr f)
    obtain r f' where s: "Subsetter_subset lib (fixed_options lib) (unicode_set_of cs) f = (r, f')"
      by (cases "Subsetter_subset lib (fixed_options lib) (unicode_set_of cs) f")
    show ?thesis
      using Inr s
      by (simp add: R_def create_parsed [OF Inr s] Let_def split: option.splits prod.splits)
  qed
  with exit left show ?thesis by simp
qed

theorem failure_exits_nonzero_witness:
  "parse_args demo_argv = Some demo_args
   \<and> main_char_set demo_args (tree demo_world (arg_directory demo_args)) = Inr demo_chars
   \<and> fst (create_font_subset full_disk_lib (arg_font demo_args) (arg_output demo_args)
        demo_chars demo_world) = Some OSError
   \<and> fst (main full_disk_lib demo_argv demo_world) = 1
   \<and> files (snd (main full_disk_lib demo_argv demo_world))
        = (files demo_world)(u ''Output.ttf'' \<mapsto> [])
   \<and> parse_args missing_argv = Some missing_args
   \<and> main_char_set missing_args (tree demo_world (arg_directory missing_args)) = Inr demo_chars
   \<and> fst (create_font_subset demo_lib (arg_font missing_args) (arg_output missing_args)
        demo_chars demo_world) = Some OSError
   \<and> fst (main demo_lib missing_argv demo_world) = 1
   \<and> files (snd (main demo_lib missing_argv demo_world)) = files demo_world
   \<and> fst (create_font_subset strict_lib (arg_font demo_args) (arg_output demo_args)
        demo_chars demo_world) = Some TTLibError
   \<and> fst (main strict_lib demo_argv demo_world) = 1
   \<and> files (snd (main strict_lib demo_argv demo_world)) = files demo_world"
proof -
  have p1: "parse_args demo_argv = Some demo_args"
    by (simp add: parse_args_def demo_argv_def demo_args_def)
  have m1: "main_char_set demo_args (tree demo_world (arg_directory demo_args)) = Inr demo_chars"
    by (simp add: main_char_set_def collect_chars_from_directory_def scan_directory_def
        demo_world_def demo_args_def demo_chars_def u_def)
  have t1: "TTFont full_disk_lib (arg_font demo_args) (files demo_world) = Inr [65, 66, 32]"
    by (simp add: full_disk_lib_def demo_lib_def demo_world_def demo_args_def u_def ord_def)
  have s1: "Subsetter_subset full_disk_lib (fixed_options full_disk_lib) (unicode_set_of cs)
        [65, 66, 32]
       = (None, filter (\<lambda>c. c \<in> unicode_set_of cs) [65, 66, 32])" for cs
    by (simp add: full_disk_lib_def demo_lib_def)
  have v1: "save_font full_disk_lib f' (arg_output demo_args) (fixed_options full_disk_lib) fs
       = (Some OSError, fs(u ''Output.ttf'' \<mapsto> []))" for f' fs
    by (simp add: full_disk_lib_def demo_lib_def demo_args_def)
  have c1: "fst (create_font_subset full_disk_lib (arg_font demo_args) (arg_output demo_args)
        demo_chars demo_world) = Some OSError"
    by (simp add: create_parsed [OF t1 s1] v1 Let_def)
  have p2: "parse_args missing_argv = Some missing_args"
    by (simp add: parse_args_def demo_argv_def demo_args_def missing_argv_def missing_args_def)
  have m2: "main_char_set missing_args (tree demo_world (arg_directory missing_args))
       = Inr demo_chars"
    by (simp add: main_char_set_def collect_chars_from_directory_def scan_directory_def
        demo_world_def demo_args_def missing_args_def demo_chars_def u_def)
  have t2: "TTFont demo_lib (arg_font missing_args) (files demo_world) = Inl OSError"
    by (simp add: demo_lib_def demo_world_def demo_args_def missing_args_def u_def ord_def)
  have c2: "fst (create_font_subset demo_lib (arg_font missing_args) (arg_output missing_args)
        demo_chars demo_world) = Some OSError"
    by (simp add: create_parse_fails [OF t2])
  have t3: "TTFont strict_lib (arg_font demo_args) (files demo_world) = Inr [65, 66, 32]"
    by (simp add: strict_lib_def demo_lib_def demo_world_def demo_args_def u_def ord_def)
  have s3: "Subsetter_subset strict_lib (fixed_options strict_lib) (unicode_set_of cs)
        [65, 66, 32]
       = (Some TTLibError, [])" for cs
    by (simp add: strict_lib_def demo_lib_def)
  have c3: "fst (create_font_subset strict_lib (arg_font demo_args) (arg_output demo_args)
        demo_chars demo_world) = Some TTLibError"
    by (simp add: create_parsed [OF t3 s3] Let_def)
  from failure_exits_nonzero [OF p1 m1 c1] failure_exits_nonzero [OF p2 m2 c2]
    failure_exits_nonzero [OF p1 m1 c3] p1 p2 m1 m2 c1 c2 c3 t1 s1 v1 t2 t3 s3
  show ?thesis by simp
qed

text \<open>
  C9, as the claim states it: the loaded container stays as loaded. In the run below the
  font is loaded as the code points 65, 66, 32; afterwards the only font object holds
  65, 32, and it is this object, at address 0, that was saved.
\<close>

theorem loaded_font_replaced:
  "TTFont demo_lib (u ''font.ttf'') (files demo_world) = Inr [65, 66, 32]
   \<and> objects (snd (create_font_subset demo_lib (u ''font.ttf'') (u ''Output.ttf'') {65} demo_world))
       = [[65, 32]]
   \<and> Save_call 0 (u ''Output.ttf'') on_opts
       \<in> set (calls (snd (create_font_subset demo_lib (u ''font.ttf'') (u ''Output.ttf'') {65} demo_world)))"
  by (simp add: create_font_subset_def demo_lib_def demo_world_def u_def ord_def
      do_subset_def do_save_def fixed_options_def unicode_set_of_def basic_chars_def Let_def on_opts_def)

text \<open>
  C9, amended. When the font is parsed and the subsetter returns, the run has created
  one font object, the loaded one; it holds what the subsetter left in it, it is the
  object given to \<open>save_font\<close>, and the files are what saving that state gives.
\<close>

theorem font_subset_in_place:
  assumes "TTFont lib fp (files w) = Inr f"
    and "Subsetter_subset lib (fixed_options lib) (unicode_set_of cs) f = (None, f')"
  shows "objects (snd (create_font_subset lib fp out cs w)) = objects w @ [f']
     \<and> Save_call (length (objects w)) out (fixed_options lib)
         \<in> set (calls (snd (create_font_subset lib fp out cs w)))
     \<and> files (snd (create_font_subset lib fp out cs w))
         = snd (save_font lib f' out (fixed_options lib) (files w))"
  by (simp add: create_parsed [OF assms] Let_def split: prod.splits option.splits)

theorem font_subset_in_place_witness:
  "TTFont demo_lib (u ''font.ttf'') (files demo_world) = Inr [65, 66, 32]
   \<and> Subsetter_subset demo_lib (fixed_options demo_lib) (unicode_set_of {65}) [65, 66, 32]
       = (None, [65, 32])
   \<and> objects (snd (create_font_subset demo_lib (u ''font.ttf'') (u ''Output.ttf'') {65} demo_world))
       = objects demo_world @ [[65, 32]]
   \<and> files (snd (create_font_subset demo_lib (u ''font.ttf'') (u ''Output.ttf'') {65} demo_world))
       = (files demo_world)(u ''Output.ttf'' \<mapsto> [65, 32])"
proof -
  have h1: "TTFont demo_lib (u ''font.ttf'') (files demo_world) = Inr [65, 66, 32]"
    by (simp add: demo_lib_def demo_world_def u_def ord_def)
  have h2: "Subsetter_subset demo_lib (fixed_options demo_lib) (unicode_set_of {65}) [65, 66, 32]
       = (None, [65, 32])"
    by (simp add: demo_lib_def unicode_set_of_def basic_chars_def)
  have h3: "save_font demo_lib f' p opts fs = (None, fs(p \<mapsto> f'))" for f' p opts fs
    by (simp add: demo_lib_def)
  from font_subset_in_place [OF h1 h2, of "u ''Output.ttf''"] h1 h2 h3
  show ?thesis by simp
qed


end
